theory Spec2Isabelle
  imports Complex_Main
begin

section \<open>Python values\<close>

text \<open>
  The values that travel through \<^verbatim>\<open>baseTypes.py\<close>: keyword arguments, decoded JSON
  bodies and the language list kept in the cache. \<open>truthy\<close> is Python's truth value
  (\<^verbatim>\<open>bool(x)\<close>), which the source uses in \<^verbatim>\<open>if post\<close>, \<^verbatim>\<open>if url\<close> and
  \<^verbatim>\<open>not self._cache\<close>.
\<close>

datatype pyfloat = Finite rat | PosInf | NegInf | NaN

datatype pyval =
    PNone
  | PBool bool
  | PInt int
  | PFloat pyfloat
  | PStr string
  | PList "pyval list"
  | PDict "(string \<times> pyval) list"

fun truthy :: "pyval \<Rightarrow> bool" where
  "truthy PNone = False"
| "truthy (PBool b) = b"
| "truthy (PInt i) = (i \<noteq> 0)"
| "truthy (PFloat f) = (f \<noteq> Finite 0)"
| "truthy (PStr s) = (s \<noteq> [])"
| "truthy (PList xs) = (xs \<noteq> [])"
| "truthy (PDict kvs) = (kvs \<noteq> [])"

type_synonym kwargs = "string \<rightharpoonup> pyval"

section \<open>Exceptions\<close>

text \<open>
  Every \<^verbatim>\<open>raise\<close> is a value. \<open>YaTranslateException\<close> carries the \<^verbatim>\<open>args\<close> tuple
  that \<^verbatim>\<open>Exception.__init__\<close> stores. \<open>KeyError\<close> comes from
  \<^verbatim>\<open>self._endpoints[endpoint]\<close>, \<open>TypeError\<close> from a keyword argument bound twice,
  \<open>AttributeError\<close> from \<^verbatim>\<open>response.find\<close> on an object that has no such method,
  and \<open>LibraryError\<close> stands for whatever \<^verbatim>\<open>requests\<close>, \<^verbatim>\<open>Response.json\<close> or
  \<^verbatim>\<open>ElementTree.fromstring\<close> raise themselves (connection errors, parse errors).
\<close>

datatype exn =
    YaTranslateException "pyval list"
  | KeyError string
  | TypeError string
  | AttributeError string
  | LibraryError string

definition error_codes :: "(int \<times> string) list" where
  "error_codes =
     [(400, ''Wrong parameter was specified''),
      (401, ''Invalid API key''),
      (402, ''Blocked API key''),
      (403, ''Exceeded the daily limit on the amount of requests''),
      (404, ''Exceeded the daily limit on the amount of translated text''),
      (413, ''Exceeded the maximum text size''),
      (422, ''The text cannot be translated''),
      (501, ''The specified translation direction is not supported''),
      (503, ''Server not available'')]"

text \<open>
  \<^verbatim>\<open>YaTranslateException.__init__(self, status_code, *args)\<close>: the message is
  \<^verbatim>\<open>error_codes.get(status_code, "Unknown code")\<close> and the exception is built from
  \<^verbatim>\<open>(message, status_code, *args)\<close>.
\<close>

definition YaTranslateException_init :: "int \<Rightarrow> pyval list \<Rightarrow> exn" where
  "YaTranslateException_init status_code args =
     (let message = (case map_of error_codes status_code of
                       Some m \<Rightarrow> m
                     | None \<Rightarrow> ''Unknown code'')
      in YaTranslateException ([PStr message, PInt status_code] @ args))"

section \<open>Responses, trees and the transport\<close>

text \<open>
  An \<^verbatim>\<open>xml.etree\<close> element: its tag, its text (\<^verbatim>\<open>None\<close> when absent) and its
  children in document order.
\<close>

datatype element =
  Element (elem_tag: string) (elem_text: "string option") (elem_children: "element list")

text \<open>
  A \<^verbatim>\<open>requests.Response\<close>, as far as the source reads it: \<^verbatim>\<open>response.ok\<close>,
  \<^verbatim>\<open>response.status_code\<close>, the outcome of \<^verbatim>\<open>response.json()\<close> and the outcome of
  \<^verbatim>\<open>ElementTree.fromstring(response.content)\<close>. Both decoders belong to libraries, so
  their outcome on this response's body is a field of the response.
\<close>

record response =
  resp_ok :: bool
  resp_status_code :: int
  resp_json :: "exn + pyval"
  resp_xml :: "exn + element"

text \<open>What a request method may hand back, and what \<^verbatim>\<open>self._cache\<close> may hold.\<close>

datatype pyobj = Resp response | Val pyval | Tree element

text \<open>
  Truth value of such an object: \<^verbatim>\<open>requests.Response.__bool__\<close> is \<^verbatim>\<open>self.ok\<close>, and
  an element is true when it has at least one child (its \<^verbatim>\<open>__len__\<close>).
\<close>

fun truthy_obj :: "pyobj \<Rightarrow> bool" where
  "truthy_obj (Resp r) = resp_ok r"
| "truthy_obj (Val v) = truthy v"
| "truthy_obj (Tree e) = (elem_children e \<noteq> [])"

text \<open>
  One call of \<^verbatim>\<open>requests.post(url, params=params)\<close> (\<open>req_post\<close>) or
  \<^verbatim>\<open>requests.get(url, params=params)\<close>.
\<close>

record request =
  req_post :: bool
  req_url :: pyval
  req_params :: kwargs

text \<open>
  The world outside the handler: the remote service (\<open>transport\<close>, which answers a
  request given the requests issued before it, with a response or with the exception
  \<^verbatim>\<open>requests\<close> raises), the requests issued so far (\<open>sent\<close>), and the messages
  handed to \<^verbatim>\<open>logger.warning\<close> (\<open>logged\<close>).
\<close>

record world =
  transport :: "request list \<Rightarrow> request \<Rightarrow> exn + response"
  sent :: "request list"
  logged :: "exn list"

section \<open>The handler\<close>

record YaAPIHandler =
  self_api_key :: string
  self_json :: string
  self_cache :: pyobj
  self_url :: string

definition base_url :: string where
  "base_url = ''''"

definition endpoints :: "string \<rightharpoonup> string" where
  "endpoints = [''langs'' \<mapsto> ''getLangs'']"

text \<open>
  \<^verbatim>\<open>__init__(self, api_key, xml=False)\<close>. The flag is optional: \<open>None\<close> is a call that
  leaves it out. The constructor takes no world: it issues no request.
\<close>

definition YaAPIHandler_init :: "string \<Rightarrow> bool option \<Rightarrow> exn + YaAPIHandler" where
  "YaAPIHandler_init api_key xml_arg =
     (let xml = (case xml_arg of None \<Rightarrow> False | Some b \<Rightarrow> b)
      in if api_key = [] then Inl (YaTranslateException_init 401 [])
         else Inr \<lparr> self_api_key = api_key,
                    self_json = (if \<not> xml then ''.json'' else ''''),
                    self_cache = Val PNone,
                    self_url = base_url \<rparr>)"

text \<open>
  \<^verbatim>\<open>_make_url(self, endpoint, url=None)\<close>: both branches index
  \<^verbatim>\<open>self._endpoints[endpoint]\<close>, which raises \<^verbatim>\<open>KeyError\<close> on an unknown name.
\<close>

definition make_url :: "YaAPIHandler \<Rightarrow> string \<Rightarrow> string option \<Rightarrow> exn + string" where
  "make_url self endpoint url =
     (if (case url of None \<Rightarrow> False | Some u \<Rightarrow> u \<noteq> []) then
        (case endpoints endpoint of
           None \<Rightarrow> Inl (KeyError endpoint)
         | Some path \<Rightarrow> Inr (the url @ path))
      else
        (case endpoints endpoint of
           None \<Rightarrow> Inl (KeyError endpoint)
         | Some path \<Rightarrow> Inr (self_url self @ path)))"

text \<open>
  \<^verbatim>\<open>_form_params(self, **params)\<close>: copy, set \<^verbatim>\<open>'key'\<close>, and delete \<^verbatim>\<open>'callback'\<close>
  when \<^verbatim>\<open>self._json\<close> is empty.
\<close>

definition form_params :: "YaAPIHandler \<Rightarrow> kwargs \<Rightarrow> kwargs" where
  "form_params self params =
     (let parameters = (\<lambda>param. params param);
          parameters = parameters(''key'' \<mapsto> PStr (self_api_key self))
      in if parameters ''callback'' \<noteq> None \<and> self_json self = []
         then parameters(''callback'' := None)
         else parameters)"

text \<open>
  \<^verbatim>\<open>_make_request(url, post=False, **params)\<close>: the request is issued, and a response
  that is not \<^verbatim>\<open>ok\<close> raises the typed exception with the response's status code.
\<close>

definition make_request :: "world \<Rightarrow> pyval \<Rightarrow> pyval \<Rightarrow> kwargs \<Rightarrow> (exn + response) \<times> world" where
  "make_request w url post params =
     (let rq = \<lparr> req_post = truthy post, req_url = url, req_params = params \<rparr>;
          w' = w\<lparr> sent := sent w @ [rq] \<rparr>
      in case transport w (sent w) rq of
           Inl err \<Rightarrow> (Inl err, w')
         | Inr response \<Rightarrow>
             if \<not> resp_ok response
             then (Inl (YaTranslateException_init (resp_status_code response) []), w')
             else (Inr response, w'))"

text \<open>
  \<^verbatim>\<open>_make_request_xml\<close>: the exception of \<^verbatim>\<open>_make_request\<close> is raised again as it is;
  otherwise the body is parsed.
\<close>

definition make_request_xml :: "world \<Rightarrow> pyval \<Rightarrow> pyval \<Rightarrow> kwargs \<Rightarrow> (exn + element) \<times> world" where
  "make_request_xml w url post params =
     (case make_request w url post params of
        (Inl err, w') \<Rightarrow> (Inl err, w')
      | (Inr response, w') \<Rightarrow> (resp_xml response, w'))"

text \<open>\<^verbatim>\<open>_make_request_json\<close>: \<^verbatim>\<open>_make_request(...).json()\<close>, every exception raised again.\<close>

definition make_request_json :: "world \<Rightarrow> pyval \<Rightarrow> pyval \<Rightarrow> kwargs \<Rightarrow> (exn + pyval) \<times> world" where
  "make_request_json w url post params =
     (case make_request w url post params of
        (Inl err, w') \<Rightarrow> (Inl err, w')
      | (Inr response, w') \<Rightarrow> (resp_json response, w'))"

text \<open>
  A call \<^verbatim>\<open>f(**parameters)\<close> of one of the three request methods, whose signature is
  \<^verbatim>\<open>(url, post=False, **params)\<close>: \<^verbatim>\<open>'url'\<close> and \<^verbatim>\<open>'post'\<close> are bound to the named
  arguments and the rest is \<^verbatim>\<open>params\<close>.
\<close>

definition call_kw ::
  "(world \<Rightarrow> pyval \<Rightarrow> pyval \<Rightarrow> kwargs \<Rightarrow> (exn + 'a) \<times> world) \<Rightarrow> world \<Rightarrow> kwargs \<Rightarrow> (exn + 'a) \<times> world" where
  "call_kw f w parameters =
     (case parameters ''url'' of
        None \<Rightarrow> (Inl (TypeError ''missing 1 required positional argument: url''), w)
      | Some url \<Rightarrow>
          f w url (case parameters ''post'' of None \<Rightarrow> PBool False | Some p \<Rightarrow> p)
            (parameters(''url'' := None, ''post'' := None)))"

definition returning :: "('a \<Rightarrow> pyobj) \<Rightarrow> (exn + 'a) \<times> world \<Rightarrow> (exn + pyobj) \<times> world" where
  "returning wrap out = (case out of (Inl err, w') \<Rightarrow> (Inl err, w') | (Inr x, w') \<Rightarrow> (Inr (wrap x), w'))"

text \<open>
  \<^verbatim>\<open>make_combined_request(self, endpoint, post=False, **params)\<close>. The dictionary
  literal is updated with \<^verbatim>\<open>params\<close>, so a supplied \<^verbatim>\<open>'url'\<close> replaces the built one.
\<close>

definition make_combined_request ::
  "YaAPIHandler \<Rightarrow> world \<Rightarrow> string \<Rightarrow> pyval \<Rightarrow> kwargs \<Rightarrow> (exn + pyobj) \<times> world" where
  "make_combined_request self w endpoint post params =
     (case make_url self endpoint None of
        Inl err \<Rightarrow> (Inl err, w)
      | Inr u \<Rightarrow>
          (let parameters = [''url'' \<mapsto> PStr u, ''post'' \<mapsto> post] ++ params
           in if params ''callback'' \<noteq> None then
                returning Resp (call_kw make_request w parameters)
              else if self_json self = [] then
                returning Tree (call_kw make_request_xml w parameters)
              else
                returning Val (call_kw make_request_json w parameters)))"

text \<open>
  \<^verbatim>\<open>Element.find('dirs')\<close>: the first child whose tag is the given one, or \<^verbatim>\<open>None\<close>.
\<close>

fun find_child :: "string \<Rightarrow> element list \<Rightarrow> element option" where
  "find_child t [] = None"
| "find_child t (c # cs) = (if elem_tag c = t then Some c else find_child t cs)"

definition find_elem :: "element \<Rightarrow> string \<Rightarrow> element option" where
  "find_elem e t = find_child t (elem_children e)"

definition text_of :: "element \<Rightarrow> pyval" where
  "text_of e = (case elem_text e of None \<Rightarrow> PNone | Some s \<Rightarrow> PStr s)"

text \<open>
  The XML branch of \<^verbatim>\<open>_get_langs\<close>: \<^verbatim>\<open>response.find('dirs')\<close> is tested for truth
  (found, and with a child) and then iterated; otherwise the top-level elements are.
  Only a tree has the \<^verbatim>\<open>find\<close> the source calls.
\<close>

definition langs_of_xml :: "pyobj \<Rightarrow> exn + pyobj" where
  "langs_of_xml response =
     (case response of
        Tree tree \<Rightarrow>
          (if (case find_elem tree ''dirs'' of None \<Rightarrow> False | Some d \<Rightarrow> truthy_obj (Tree d))
           then Inr (Val (PList (map text_of (elem_children (the (find_elem tree ''dirs''))))))
           else Inr (Val (PList (map text_of (elem_children tree)))))
      | _ \<Rightarrow> Inl (AttributeError ''find''))"

text \<open>
  \<^verbatim>\<open>_get_langs(self, url, update=False, **params)\<close>. The call
  \<^verbatim>\<open>self.make_combined_request(endpoint="langs", **parameters)\<close> binds \<^verbatim>\<open>'post'\<close> to the
  named argument and fails with \<^verbatim>\<open>TypeError\<close> when \<^verbatim>\<open>parameters\<close> has an
  \<^verbatim>\<open>'endpoint'\<close> entry of its own. Python binds \<^verbatim>\<open>url\<close> and \<^verbatim>\<open>update\<close> to the named
  parameters, so \<^verbatim>\<open>params\<close> never holds entries of these names. The result is the
  returned object, the handler (whose cache may have changed) and the world.
\<close>

definition get_langs ::
  "YaAPIHandler \<Rightarrow> world \<Rightarrow> string \<Rightarrow> bool \<Rightarrow> kwargs \<Rightarrow> (exn + pyobj) \<times> YaAPIHandler \<times> world" where
  "get_langs self w url update params =
     (let parameters = [''post'' \<mapsto> PBool False] ++ form_params self params
      in if params ''callback'' \<noteq> None then
           (case make_url self ''langs'' (Some url) of
              Inl err \<Rightarrow> (Inl err, self, w)
            | Inr u \<Rightarrow>
                (case returning Resp (call_kw make_request w (parameters(''url'' \<mapsto> PStr u))) of
                   (out, w') \<Rightarrow> (out, self, w')))
         else if update \<or> \<not> truthy_obj (self_cache self) then
           (if parameters ''endpoint'' \<noteq> None
            then (Inl (TypeError ''got multiple values for keyword argument endpoint''), self, w)
            else
              (case make_combined_request self w ''langs''
                      (case parameters ''post'' of None \<Rightarrow> PBool False | Some p \<Rightarrow> p)
                      (parameters(''post'' := None)) of
                 (Inl err, w') \<Rightarrow> (Inl err, self, w')
               | (Inr response, w') \<Rightarrow>
                   (if self_json self \<noteq> [] then
                      (Inr response, self\<lparr> self_cache := response \<rparr>, w')
                    else
                      (case langs_of_xml response of
                         Inl err \<Rightarrow> (Inl err, self, w')
                       | Inr langs \<Rightarrow> (Inr langs, self\<lparr> self_cache := langs \<rparr>, w')))))
         else (Inr (self_cache self), self, w))"

text \<open>
  \<^verbatim>\<open>_ok(self, url, **params)\<close>. The body of the \<^verbatim>\<open>try\<close> is the call
  \<^verbatim>\<open>self._get_langs(url, update=True, **params)\<close>, which fails with \<^verbatim>\<open>TypeError\<close>
  before the fetch begins when \<^verbatim>\<open>params\<close> has an \<^verbatim>\<open>'update'\<close> entry of its own (the
  keyword is then given twice). That exception, like any exception of the fetch, is
  handed to \<^verbatim>\<open>logger.warning\<close> and turned into \<^verbatim>\<open>False\<close>.
\<close>

definition ok :: "YaAPIHandler \<Rightarrow> world \<Rightarrow> string \<Rightarrow> kwargs \<Rightarrow> bool \<times> YaAPIHandler \<times> world" where
  "ok self w url params =
     (case (if params ''update'' \<noteq> None
            then (Inl (TypeError ''got multiple values for keyword argument update''), self, w)
            else get_langs self w url True params) of
        (Inl err, self', w') \<Rightarrow> (False, self', w'\<lparr> logged := logged w' @ [err] \<rparr>)
      | (Inr _, self', w') \<Rightarrow> (True, self', w'))"

section \<open>Test doubles\<close>

text \<open>
  Concrete handlers, replies and services on which the theorems below are run:
  the two handlers \<^verbatim>\<open>_YaAPIHandler("123")\<close> and \<^verbatim>\<open>_YaAPIHandler("123", xml=True)\<close>
  build, replies with a decodable JSON body, with a parsable XML body and with a
  failure status, a service that answers every request with one reply, and a service
  that cannot be reached.
\<close>

definition json_handler :: YaAPIHandler where
  "json_handler = \<lparr> self_api_key = ''123'', self_json = ''.json'', self_cache = Val PNone, self_url = '''' \<rparr>"

definition xml_handler :: YaAPIHandler where
  "xml_handler = \<lparr> self_api_key = ''123'', self_json = '''', self_cache = Val PNone, self_url = '''' \<rparr>"

definition json_reply :: "pyval \<Rightarrow> response" where
  "json_reply v = \<lparr> resp_ok = True, resp_status_code = 200, resp_json = Inr v,
                     resp_xml = Inl (LibraryError ''ParseError'') \<rparr>"

definition xml_reply :: "element \<Rightarrow> response" where
  "xml_reply e = \<lparr> resp_ok = True, resp_status_code = 200,
                    resp_json = Inl (LibraryError ''JSONDecodeError''), resp_xml = Inr e \<rparr>"

definition error_reply :: "int \<Rightarrow> response" where
  "error_reply code = \<lparr> resp_ok = False, resp_status_code = code,
                         resp_json = Inl (LibraryError ''JSONDecodeError''),
                         resp_xml = Inl (LibraryError ''ParseError'') \<rparr>"

definition answering :: "response \<Rightarrow> request list \<Rightarrow> request \<Rightarrow> exn + response" where
  "answering r history rq = Inr r"

definition unreachable :: "request list \<Rightarrow> request \<Rightarrow> exn + response" where
  "unreachable history rq = Inl (LibraryError ''ConnectionError'')"

definition fresh_world :: "(request list \<Rightarrow> request \<Rightarrow> exn + response) \<Rightarrow> world" where
  "fresh_world service = \<lparr> transport = service, sent = [], logged = [] \<rparr>"

definition langs_get :: request where
  "langs_get = \<lparr> req_post = False, req_url = PStr ''getLangs'', req_params = [''key'' \<mapsto> PStr ''123''] \<rparr>"

definition dirs_tree :: element where
  "dirs_tree = Element ''Langs'' None
     [Element ''dirs'' None [Element ''string'' (Some ''en-ru'') [], Element ''string'' (Some ''ru-en'') []]]"

definition flat_tree :: element where
  "flat_tree = Element ''ArrayOfString'' None
     [Element ''string'' (Some ''en'') [], Element ''string'' (Some ''ru'') [], Element ''string'' (Some ''de'') []]"

definition nested_tree :: element where
  "nested_tree = Element ''Langs'' None
     [Element ''result'' None
        [Element ''dirs'' None [Element ''string'' (Some ''en-ru'') [], Element ''string'' (Some ''ru-en'') []]]]"

definition refilled :: "request list \<Rightarrow> request \<Rightarrow> exn + response" where
  "refilled history rq = Inr (json_reply (if history = [] then PList [] else PList [PStr ''en'']))"

section \<open>Keyword arguments and the low-level requests\<close>

lemma kw_rest:
  "([''url'' \<mapsto> a, ''post'' \<mapsto> b] ++ params)(''url'' := None, ''post'' := None)
     = params(''url'' := None, ''post'' := None)"
  by (rule ext) (auto simp add: map_add_def split: option.splits)

lemma kw_url:
  "([''url'' \<mapsto> a, ''post'' \<mapsto> b] ++ params) ''url''
     = Some (case params ''url'' of None \<Rightarrow> a | Some x \<Rightarrow> x)"
  by (simp add: map_add_def split: option.splits)

lemma kw_post:
  "([''url'' \<mapsto> a, ''post'' \<mapsto> b] ++ params) ''post''
     = Some (case params ''post'' of None \<Rightarrow> b | Some x \<Rightarrow> x)"
  by (simp add: map_add_def split: option.splits)

lemma call_kw_combined:
  "call_kw f w ([''url'' \<mapsto> a, ''post'' \<mapsto> b] ++ params) =
     f w (case params ''url'' of None \<Rightarrow> a | Some x \<Rightarrow> x)
         (case params ''post'' of None \<Rightarrow> b | Some x \<Rightarrow> x)
         (params(''url'' := None, ''post'' := None))"
  unfolding call_kw_def kw_url kw_post kw_rest by simp

lemma post_rest: "([''post'' \<mapsto> b] ++ m)(''post'' := None) = m(''post'' := None)"
  by (rule ext) (auto simp add: map_add_def split: option.splits)

lemma langs_known: "endpoints ''langs'' = Some ''getLangs''"
  by (simp add: endpoints_def)

lemma make_url_known:
  "endpoints endpoint = Some path \<Longrightarrow> make_url self endpoint None = Inr (self_url self @ path)"
  by (simp add: make_url_def)

lemma make_url_langs:
  "make_url self ''langs'' (Some url) = Inr ((if url \<noteq> [] then url else self_url self) @ ''getLangs'')"
  by (simp add: make_url_def langs_known)

lemma make_request_answer:
  assumes "transport w (sent w) \<lparr> req_post = truthy post, req_url = url, req_params = params \<rparr> = Inr r"
    and "resp_ok r"
  shows "make_request w url post params =
     (Inr r, w\<lparr> sent := sent w @ [\<lparr> req_post = truthy post, req_url = url, req_params = params \<rparr>] \<rparr>)"
  using assms by (simp add: make_request_def Let_def)

lemma make_request_json_answer:
  assumes "transport w (sent w) \<lparr> req_post = truthy post, req_url = url, req_params = params \<rparr> = Inr r"
    and "resp_ok r"
  shows "make_request_json w url post params =
     (resp_json r, w\<lparr> sent := sent w @ [\<lparr> req_post = truthy post, req_url = url, req_params = params \<rparr>] \<rparr>)"
  by (simp add: make_request_json_def make_request_answer [OF assms])

lemma make_request_xml_answer:
  assumes "transport w (sent w) \<lparr> req_post = truthy post, req_url = url, req_params = params \<rparr> = Inr r"
    and "resp_ok r"
  shows "make_request_xml w url post params =
     (resp_xml r, w\<lparr> sent := sent w @ [\<lparr> req_post = truthy post, req_url = url, req_params = params \<rparr>] \<rparr>)"
  by (simp add: make_request_xml_def make_request_answer [OF assms])

text \<open>Each of the three request methods issues exactly one request, whatever comes back.\<close>

lemma make_request_sent:
  "snd (make_request w url post params) =
     w\<lparr> sent := sent w @ [\<lparr> req_post = truthy post, req_url = url, req_params = params \<rparr>] \<rparr>"
  by (simp add: make_request_def Let_def split: sum.splits)

lemma make_request_xml_sent:
  "snd (make_request_xml w url post params) =
     w\<lparr> sent := sent w @ [\<lparr> req_post = truthy post, req_url = url, req_params = params \<rparr>] \<rparr>"
  using make_request_sent [of w url post params]
  by (cases "make_request w url post params") (auto simp add: make_request_xml_def split: sum.splits)

lemma make_request_json_sent:
  "snd (make_request_json w url post params) =
     w\<lparr> sent := sent w @ [\<lparr> req_post = truthy post, req_url = url, req_params = params \<rparr>] \<rparr>"
  using make_request_sent [of w url post params]
  by (cases "make_request w url post params") (auto simp add: make_request_json_def split: sum.splits)

lemma returning_snd: "snd (returning wrap out) = snd out"
  by (cases out) (auto simp add: returning_def split: sum.splits)

section \<open>The combined request\<close>

lemma combined_dispatch:
  assumes "endpoints endpoint = Some path"
  shows "make_combined_request self w endpoint post params =
     (if params ''callback'' \<noteq> None then
        returning Resp (make_request w
           (case params ''url'' of None \<Rightarrow> PStr (self_url self @ path) | Some x \<Rightarrow> x)
           (case params ''post'' of None \<Rightarrow> post | Some x \<Rightarrow> x)
           (params(''url'' := None, ''post'' := None)))
      else if self_json self = [] then
        returning Tree (make_request_xml w
           (case params ''url'' of None \<Rightarrow> PStr (self_url self @ path) | Some x \<Rightarrow> x)
           (case params ''post'' of None \<Rightarrow> post | Some x \<Rightarrow> x)
           (params(''url'' := None, ''post'' := None)))
      else
        returning Val (make_request_json w
           (case params ''url'' of None \<Rightarrow> PStr (self_url self @ path) | Some x \<Rightarrow> x)
           (case params ''post'' of None \<Rightarrow> post | Some x \<Rightarrow> x)
           (params(''url'' := None, ''post'' := None))))"
  unfolding make_combined_request_def make_url_known [OF assms] Let_def call_kw_combined
  by simp

section \<open>The language list\<close>

lemma form_params_other:
  "k \<noteq> ''key'' \<Longrightarrow> k \<noteq> ''callback'' \<Longrightarrow> form_params self params k = params k"
  by (simp add: form_params_def Let_def)

lemma form_params_no_callback:
  "params ''callback'' = None \<Longrightarrow> form_params self params ''callback'' = None"
  by (simp add: form_params_def Let_def)

lemma plain_params:
  "(form_params h Map.empty)(''url'' := None, ''post'' := None) = [''key'' \<mapsto> PStr (self_api_key h)]"
  by (rule ext) (simp add: form_params_def Let_def)


text \<open>A call that fills the cache goes through the combined request.\<close>

lemma get_langs_fetch:
  assumes "params ''callback'' = None" and "params ''endpoint'' = None"
    and "update \<or> \<not> truthy_obj (self_cache self)"
  shows "get_langs self w url update params =
     (case make_combined_request self w ''langs''
             (case params ''post'' of None \<Rightarrow> PBool False | Some p \<Rightarrow> p)
             ((form_params self params)(''post'' := None)) of
        (Inl err, w') \<Rightarrow> (Inl err, self, w')
      | (Inr response, w') \<Rightarrow>
          (if self_json self \<noteq> [] then (Inr response, self\<lparr> self_cache := response \<rparr>, w')
           else (case langs_of_xml response of
                   Inl err \<Rightarrow> (Inl err, self, w')
                 | Inr langs \<Rightarrow> (Inr langs, self\<lparr> self_cache := langs \<rparr>, w'))))"
proof -
  have e: "([''post'' \<mapsto> PBool False] ++ form_params self params) ''endpoint'' = None"
    using assms(2) by (simp add: map_add_def form_params_other)
  have p: "(case ([''post'' \<mapsto> PBool False] ++ form_params self params) ''post'' of
              None \<Rightarrow> PBool False | Some p \<Rightarrow> p)
           = (case params ''post'' of None \<Rightarrow> PBool False | Some p \<Rightarrow> p)"
    by (simp add: map_add_def form_params_other split: option.splits)
  show ?thesis
    unfolding get_langs_def Let_def p post_rest
    using assms(1,3) e by simp
qed

lemma langs_dispatch:
  assumes "params ''callback'' = None"
  shows "make_combined_request self w ''langs'' post ((form_params self params)(''post'' := None)) =
     (if self_json self = [] then
        returning Tree (make_request_xml w
           (case params ''url'' of None \<Rightarrow> PStr (self_url self @ ''getLangs'') | Some x \<Rightarrow> x)
           post ((form_params self params)(''url'' := None, ''post'' := None)))
      else
        returning Val (make_request_json w
           (case params ''url'' of None \<Rightarrow> PStr (self_url self @ ''getLangs'') | Some x \<Rightarrow> x)
           post ((form_params self params)(''url'' := None, ''post'' := None))))"
proof -
  have r: "((form_params self params)(''post'' := None))(''url'' := None, ''post'' := None)
         = (form_params self params)(''url'' := None, ''post'' := None)"
    by (rule ext) simp
  show ?thesis
    unfolding combined_dispatch [OF langs_known] r
    using assms by (simp add: form_params_no_callback form_params_other)
qed

lemma get_langs_json_fetch:
  assumes "params ''callback'' = None" and "params ''endpoint'' = None"
    and "update \<or> \<not> truthy_obj (self_cache self)" and "self_json self \<noteq> []"
  shows "get_langs self w url update params =
     (case make_request_json w
             (case params ''url'' of None \<Rightarrow> PStr (self_url self @ ''getLangs'') | Some x \<Rightarrow> x)
             (case params ''post'' of None \<Rightarrow> PBool False | Some p \<Rightarrow> p)
             ((form_params self params)(''url'' := None, ''post'' := None)) of
        (Inl err, w') \<Rightarrow> (Inl err, self, w')
      | (Inr x, w') \<Rightarrow> (Inr (Val x), self\<lparr> self_cache := Val x \<rparr>, w'))"
  unfolding get_langs_fetch [OF assms(1,2,3)] langs_dispatch [of params, OF assms(1)]
  using assms(4) by (simp add: returning_def split: prod.splits sum.splits)

lemma get_langs_xml_fetch:
  assumes "params ''callback'' = None" and "params ''endpoint'' = None"
    and "update \<or> \<not> truthy_obj (self_cache self)" and "self_json self = []"
  shows "get_langs self w url update params =
     (case make_request_xml w
             (case params ''url'' of None \<Rightarrow> PStr (self_url self @ ''getLangs'') | Some x \<Rightarrow> x)
             (case params ''post'' of None \<Rightarrow> PBool False | Some p \<Rightarrow> p)
             ((form_params self params)(''url'' := None, ''post'' := None)) of
        (Inl err, w') \<Rightarrow> (Inl err, self, w')
      | (Inr tree, w') \<Rightarrow>
          (case langs_of_xml (Tree tree) of
             Inl err \<Rightarrow> (Inl err, self, w')
           | Inr langs \<Rightarrow> (Inr langs, self\<lparr> self_cache := langs \<rparr>, w')))"
  unfolding get_langs_fetch [OF assms(1,2,3)] langs_dispatch [of params, OF assms(1)]
  using assms(4) by (simp add: returning_def split: prod.splits sum.splits)

text \<open>What a call without a callback returns is what the handler then holds in its cache.\<close>

lemma get_langs_keeps:
  assumes "params ''callback'' = None" and "get_langs self w url update params = (Inr v, h1, w1)"
  shows "self_cache h1 = v \<and> self_json h1 = self_json self"
  using assms
  by (auto simp add: get_langs_def Let_def split: if_splits prod.splits sum.splits)

lemma get_langs_callback_sent:
  assumes "params ''callback'' \<noteq> None"
  shows "\<exists>rq. snd (snd (get_langs self w url update params)) = w\<lparr> sent := sent w @ [rq] \<rparr>"
proof -
  obtain u where u: "make_url self ''langs'' (Some url) = Inr u"
    using make_url_langs by blast
  let ?m = "([''post'' \<mapsto> PBool False] ++ form_params self params)(''url'' \<mapsto> PStr u)"
  have k: "snd (call_kw make_request w ?m) =
      w\<lparr> sent := sent w @
        [\<lparr> req_post = truthy (case ?m ''post'' of None \<Rightarrow> PBool False | Some p \<Rightarrow> p),
           req_url = PStr u, req_params = ?m(''url'' := None, ''post'' := None) \<rparr>] \<rparr>"
    by (simp add: call_kw_def make_request_sent)
  have "snd (snd (get_langs self w url update params)) = snd (returning Resp (call_kw make_request w ?m))"
    using assms u by (simp add: get_langs_def Let_def split: prod.splits)
  then show ?thesis
    unfolding returning_snd k by blast
qed


text \<open>The search of \<^verbatim>\<open>find\<close> among the children, and the result of an XML-mode fetch.\<close>

lemma find_child_first:
  "\<forall>c\<in>set pre. elem_tag c \<noteq> t \<Longrightarrow> elem_tag d = t \<Longrightarrow> find_child t (pre @ d # post) = Some d"
  by (induction pre) simp_all

lemma find_child_absent:
  "\<forall>c\<in>set cs. elem_tag c \<noteq> t \<Longrightarrow> find_child t cs = None"
  by (induction cs) simp_all

lemma get_langs_xml_result:
  assumes "self_json self = []"
    and "params ''callback'' = None" and "params ''endpoint'' = None"
    and "update \<or> \<not> truthy_obj (self_cache self)"
    and "\<forall>rq. transport w (sent w) rq = Inr r"
    and "resp_ok r" and "resp_xml r = Inr tree"
  shows "fst (get_langs self w url update params) = langs_of_xml (Tree tree)"
proof -
  let ?url = "case params ''url'' of None \<Rightarrow> PStr (self_url self @ ''getLangs'') | Some x \<Rightarrow> x"
  let ?post = "case params ''post'' of None \<Rightarrow> PBool False | Some p \<Rightarrow> p"
  let ?rest = "(form_params self params)(''url'' := None, ''post'' := None)"
  have a: "transport w (sent w) \<lparr> req_post = truthy ?post, req_url = ?url, req_params = ?rest \<rparr> = Inr r"
    using assms(5) by blast
  show ?thesis
    unfolding get_langs_xml_fetch [OF assms(2,3,4,1)] make_request_xml_answer [OF a assms(6)]
    using assms(7) by (simp split: sum.splits)
qed

text \<open>A call that finds a false value in the cache asks the service.\<close>

lemma falsy_cache_fetch:
  assumes falsy: "\<not> truthy_obj (self_cache h)" and ne: "params ''endpoint'' = None"
  shows "\<exists>rq. snd (snd (get_langs h w url False params)) = w\<lparr> sent := sent w @ [rq] \<rparr> \<and>
           (\<forall>r. transport w (sent w) rq = Inr r \<and> resp_ok r \<and> params ''callback'' = None \<longrightarrow>
              (self_json h \<noteq> [] \<longrightarrow>
                 (\<forall>x. resp_json r = Inr x \<longrightarrow>
                    get_langs h w url False params =
                      (Inr (Val x), h\<lparr> self_cache := Val x \<rparr>, w\<lparr> sent := sent w @ [rq] \<rparr>))) \<and>
              (self_json h = [] \<longrightarrow>
                 (\<forall>tree langs. resp_xml r = Inr tree \<and> langs_of_xml (Tree tree) = Inr langs \<longrightarrow>
                    get_langs h w url False params =
                      (Inr langs, h\<lparr> self_cache := langs \<rparr>, w\<lparr> sent := sent w @ [rq] \<rparr>))))"
proof (cases "params ''callback'' = None")
  case False
  obtain rq where "snd (snd (get_langs h w url False params)) = w\<lparr> sent := sent w @ [rq] \<rparr>"
    using get_langs_callback_sent [of params h w url False] False by blast
  with False show ?thesis
    by (intro exI [of _ rq]) auto
next
  case True
  let ?url = "case params ''url'' of None \<Rightarrow> PStr (self_url h @ ''getLangs'') | Some x \<Rightarrow> x"
  let ?post = "case params ''post'' of None \<Rightarrow> PBool False | Some p \<Rightarrow> p"
  let ?rest = "(form_params h params)(''url'' := None, ''post'' := None)"
  let ?rq = "\<lparr> req_post = truthy ?post, req_url = ?url, req_params = ?rest \<rparr>"
  have u: "False \<or> \<not> truthy_obj (self_cache h)"
    using falsy by simp
  have s: "snd (snd (get_langs h w url False params)) = w\<lparr> sent := sent w @ [?rq] \<rparr>"
  proof (cases "self_json h = []")
    case True
    have "snd (snd (get_langs h w url False params)) = snd (make_request_xml w ?url ?post ?rest)"
      unfolding get_langs_xml_fetch [OF \<open>params ''callback'' = None\<close> ne u True]
      by (simp split: prod.splits sum.splits)
    then show ?thesis by (simp add: make_request_xml_sent)
  next
    case False
    have "snd (snd (get_langs h w url False params)) = snd (make_request_json w ?url ?post ?rest)"
      unfolding get_langs_json_fetch [OF \<open>params ''callback'' = None\<close> ne u False]
      by (simp split: prod.splits sum.splits)
    then show ?thesis by (simp add: make_request_json_sent)
  qed
  have j: "get_langs h w url False params =
             (Inr (Val x), h\<lparr> self_cache := Val x \<rparr>, w\<lparr> sent := sent w @ [?rq] \<rparr>)"
    if "transport w (sent w) ?rq = Inr r" and "resp_ok r" and "self_json h \<noteq> []" and "resp_json r = Inr x"
    for r x
    unfolding get_langs_json_fetch [OF True ne u that(3)] make_request_json_answer [OF that(1,2)]
    using that(4) by simp
  have x: "get_langs h w url False params =
             (Inr langs, h\<lparr> self_cache := langs \<rparr>, w\<lparr> sent := sent w @ [?rq] \<rparr>)"
    if "transport w (sent w) ?rq = Inr r" and "resp_ok r" and "self_json h = []"
      and "resp_xml r = Inr tree" and "langs_of_xml (Tree tree) = Inr langs"
    for r tree langs
    unfolding get_langs_xml_fetch [OF True ne u that(3)] make_request_xml_answer [OF that(1,2)]
    using that(4,5) by simp
  show ?thesis
  proof (rule exI [of _ ?rq], intro conjI allI impI)
    show "snd (snd (get_langs h w url False params)) = w\<lparr> sent := sent w @ [?rq] \<rparr>"
      by (rule s)
  next
    fix r x
    assume "transport w (sent w) ?rq = Inr r \<and> resp_ok r \<and> params ''callback'' = None"
      and "self_json h \<noteq> []" and "resp_json r = Inr x"
    then show "get_langs h w url False params =
                 (Inr (Val x), h\<lparr> self_cache := Val x \<rparr>, w\<lparr> sent := sent w @ [?rq] \<rparr>)"
      using j by blast
  next
    fix r tree langs
    assume "transport w (sent w) ?rq = Inr r \<and> resp_ok r \<and> params ''callback'' = None"
      and "self_json h = []" and "resp_xml r = Inr tree \<and> langs_of_xml (Tree tree) = Inr langs"
    then show "get_langs h w url False params =
                 (Inr langs, h\<lparr> self_cache := langs \<rparr>, w\<lparr> sent := sent w @ [?rq] \<rparr>)"
      using x by blast
  qed
qed

lemma plain_json_answer:
  assumes "self_json h \<noteq> []" and "update \<or> \<not> truthy_obj (self_cache h)"
    and "transport w (sent w) \<lparr> req_post = False, req_url = PStr (self_url h @ ''getLangs''),
             req_params = [''key'' \<mapsto> PStr (self_api_key h)] \<rparr> = Inr r"
    and "resp_ok r" and "resp_json r = Inr v"
  shows "get_langs h w url update Map.empty =
     (Inr (Val v), h\<lparr> self_cache := Val v \<rparr>,
      w\<lparr> sent := sent w @ [\<lparr> req_post = False, req_url = PStr (self_url h @ ''getLangs''),
                               req_params = [''key'' \<mapsto> PStr (self_api_key h)] \<rparr>] \<rparr>)"
proof -
  have a: "transport w (sent w) \<lparr> req_post = truthy (PBool False), req_url = PStr (self_url h @ ''getLangs''),
             req_params = [''key'' \<mapsto> PStr (self_api_key h)] \<rparr> = Inr r"
    using assms(3) by simp
  show ?thesis
    using get_langs_json_fetch [of Map.empty update h w url] assms(1,2)
    by (simp add: plain_params make_request_json_answer [OF a assms(4)] assms(5))
qed

lemma refilled_first:
  "get_langs json_handler (fresh_world refilled) ''https://host/'' False Map.empty =
     (Inr (Val (PList [])), json_handler\<lparr> self_cache := Val (PList []) \<rparr>,
      (fresh_world refilled)\<lparr> sent := [langs_get] \<rparr>)"
  using plain_json_answer [of json_handler False "fresh_world refilled" "json_reply (PList [])" "PList []"
      "''https://host/''"]
  by (simp add: json_handler_def fresh_world_def langs_get_def refilled_def json_reply_def)

lemma refilled_second:
  "get_langs (json_handler\<lparr> self_cache := Val (PList []) \<rparr>) ((fresh_world refilled)\<lparr> sent := [langs_get] \<rparr>)
      ''https://host/'' False Map.empty =
     (Inr (Val (PList [PStr ''en''])), json_handler\<lparr> self_cache := Val (PList [PStr ''en'']) \<rparr>,
      (fresh_world refilled)\<lparr> sent := [langs_get, langs_get] \<rparr>)"
  using plain_json_answer [of "json_handler\<lparr> self_cache := Val (PList []) \<rparr>" False
      "(fresh_world refilled)\<lparr> sent := [langs_get] \<rparr>" "json_reply (PList [PStr ''en''])" "PList [PStr ''en'']"
      "''https://host/''"]
  by (simp add: json_handler_def fresh_world_def langs_get_def refilled_def json_reply_def)

text \<open>The fetches of the test doubles.\<close>

lemma plain_json_fetch:
  assumes "self_json h \<noteq> []" and "update \<or> \<not> truthy_obj (self_cache h)"
    and "transport w = answering (json_reply v)"
  shows "get_langs h w url update Map.empty =
     (Inr (Val v), h\<lparr> self_cache := Val v \<rparr>,
      w\<lparr> sent := sent w @ [\<lparr> req_post = False, req_url = PStr (self_url h @ ''getLangs''),
                               req_params = [''key'' \<mapsto> PStr (self_api_key h)] \<rparr>] \<rparr>)"
proof -
  have a: "transport w (sent w) \<lparr> req_post = truthy (PBool False), req_url = PStr (self_url h @ ''getLangs''),
             req_params = [''key'' \<mapsto> PStr (self_api_key h)] \<rparr> = Inr (json_reply v)"
    by (simp add: assms(3) answering_def)
  have b: "resp_ok (json_reply v)" by (simp add: json_reply_def)
  have c: "resp_json (json_reply v) = Inr v" by (simp add: json_reply_def)
  show ?thesis
    using get_langs_json_fetch [of Map.empty update h w url] assms(1,2)
    by (simp add: plain_params make_request_json_answer [OF a b] c)
qed

lemma first_fetch_empty:
  "get_langs json_handler (fresh_world (answering (json_reply (PList [])))) ''https://host/'' False Map.empty =
     (Inr (Val (PList [])), json_handler\<lparr> self_cache := Val (PList []) \<rparr>,
      fresh_world (answering (json_reply (PList [])))\<lparr> sent := [langs_get] \<rparr>)"
  using plain_json_fetch [of json_handler False "fresh_world (answering (json_reply (PList [])))"
      "PList []" "''https://host/''"]
  by (simp add: json_handler_def fresh_world_def langs_get_def)


lemma first_fetch_en:
  "get_langs json_handler (fresh_world (answering (json_reply (PList [PStr ''en''])))) ''https://host/'' update
      Map.empty =
     (Inr (Val (PList [PStr ''en''])), json_handler\<lparr> self_cache := Val (PList [PStr ''en'']) \<rparr>,
      fresh_world (answering (json_reply (PList [PStr ''en''])))\<lparr> sent := [langs_get] \<rparr>)"
  using plain_json_fetch [of json_handler update "fresh_world (answering (json_reply (PList [PStr ''en''])))"
      "PList [PStr ''en'']" "''https://host/''"]
  by (simp add: json_handler_def fresh_world_def langs_get_def)

lemma fetch_unreachable:
  "get_langs json_handler (fresh_world unreachable) ''https://host/'' True Map.empty =
     (Inl (LibraryError ''ConnectionError''), json_handler, (fresh_world unreachable)\<lparr> sent := [langs_get] \<rparr>)"
  using get_langs_json_fetch [of Map.empty True json_handler "fresh_world unreachable" "''https://host/''"]
  by (simp add: plain_params make_request_json_def make_request_def Let_def fresh_world_def
        unreachable_def json_handler_def langs_get_def)

lemma answering_any:
  "transport (fresh_world (answering r)) (sent (fresh_world (answering r))) rq = Inr r"
  by (simp add: fresh_world_def answering_def)

lemma no_callback: "Map.empty ''callback'' = (None :: pyval option)"
  by simp

lemma no_endpoint: "Map.empty ''endpoint'' = (None :: pyval option)"
  by simp

section \<open>Claims\<close>

text \<open>
  C1. Constructing the handler with an empty API key fails with the typed exception
  whose message is "Invalid API key" and whose status code is 401; constructing it
  with any non-empty key succeeds and stores that key. The constructor is a function
  of the key and the flag alone: it has no access to the world, so the exception is
  raised with no request issued.
\<close>

theorem init_rejects_empty_key:
  "YaAPIHandler_init [] xml_arg = Inl (YaTranslateException [PStr ''Invalid API key'', PInt 401]) \<and>
   (api_key \<noteq> [] \<longrightarrow>
      (\<exists>h. YaAPIHandler_init api_key xml_arg = Inr h \<and> self_api_key h = api_key))"
  by (simp add: YaAPIHandler_init_def YaTranslateException_init_def error_codes_def)

theorem init_rejects_empty_key_witness:
  "''123'' \<noteq> [] \<and>
   (\<exists>h. YaAPIHandler_init ''123'' None = Inr h \<and> self_api_key h = ''123'') \<and>
   YaAPIHandler_init [] None = Inl (YaTranslateException [PStr ''Invalid API key'', PInt 401])"
  using init_rejects_empty_key [of None "''123''"] by simp

text \<open>
  C2. For every integer status code the exception is constructed and carries the
  message and then the status code; the message is the mapped one for each of 400,
  401, 402, 403, 404, 413, 422, 501 and 503, and "Unknown code" for every other code.
\<close>

theorem exception_message_lookup:
  "\<exists>m. YaTranslateException_init c [] = YaTranslateException [PStr m, PInt c] \<and>
     (c = 400 \<longrightarrow> m = ''Wrong parameter was specified'') \<and>
     (c = 401 \<longrightarrow> m = ''Invalid API key'') \<and>
     (c = 402 \<longrightarrow> m = ''Blocked API key'') \<and>
     (c = 403 \<longrightarrow> m = ''Exceeded the daily limit on the amount of requests'') \<and>
     (c = 404 \<longrightarrow> m = ''Exceeded the daily limit on the amount of translated text'') \<and>
     (c = 413 \<longrightarrow> m = ''Exceeded the maximum text size'') \<and>
     (c = 422 \<longrightarrow> m = ''The text cannot be translated'') \<and>
     (c = 501 \<longrightarrow> m = ''The specified translation direction is not supported'') \<and>
     (c = 503 \<longrightarrow> m = ''Server not available'') \<and>
     (c \<notin> {400, 401, 402, 403, 404, 413, 422, 501, 503} \<longrightarrow> m = ''Unknown code'')"
  by (simp add: YaTranslateException_init_def error_codes_def)

theorem exception_message_lookup_witness:
  "YaTranslateException_init 300 [] = YaTranslateException [PStr ''Unknown code'', PInt 300] \<and>
   YaTranslateException_init 400 [] = YaTranslateException [PStr ''Wrong parameter was specified'', PInt 400]"
  using exception_message_lookup [of 300] exception_message_lookup [of 400] by auto




text \<open>
  C4. For every set of supplied named parameters, parameter formation returns a
  mapping that holds the handler's API key under the reserved key \<^verbatim>\<open>key\<close> and every
  other supplied parameter unchanged; in XML mode the result has no \<^verbatim>\<open>callback\<close>
  entry, even if one was supplied, and in JSON mode a supplied \<^verbatim>\<open>callback\<close> entry is
  kept. The reserved key always holds the API key: the copy comes first and the key
  is injected after it.
\<close>

theorem form_params_result:
  "form_params self params ''key'' = Some (PStr (self_api_key self)) \<and>
   (\<forall>k. k \<noteq> ''key'' \<and> k \<noteq> ''callback'' \<longrightarrow> form_params self params k = params k) \<and>
   (self_json self = [] \<longrightarrow> form_params self params ''callback'' = None) \<and>
   (self_json self \<noteq> [] \<longrightarrow> form_params self params ''callback'' = params ''callback'')"
  by (auto simp add: form_params_def Let_def)

theorem form_params_result_witness:
  "form_params xml_handler [''ui'' \<mapsto> PStr ''en'', ''callback'' \<mapsto> PStr ''cb''] ''key'' = Some (PStr ''123'') \<and>
   form_params xml_handler [''ui'' \<mapsto> PStr ''en'', ''callback'' \<mapsto> PStr ''cb''] ''ui'' = Some (PStr ''en'') \<and>
   form_params xml_handler [''ui'' \<mapsto> PStr ''en'', ''callback'' \<mapsto> PStr ''cb''] ''callback'' = None \<and>
   form_params json_handler [''ui'' \<mapsto> PStr ''en'', ''callback'' \<mapsto> PStr ''cb''] ''callback'' = Some (PStr ''cb'')"
  using form_params_result [of xml_handler "[''ui'' \<mapsto> PStr ''en'', ''callback'' \<mapsto> PStr ''cb'']"]
        form_params_result [of json_handler "[''ui'' \<mapsto> PStr ''en'', ''callback'' \<mapsto> PStr ''cb'']"]
  by (simp add: xml_handler_def json_handler_def)

text \<open>
  C5, as the claim states it, fails when the \<^verbatim>\<open>dirs\<close> element the tree contains is
  not a top-level element of the response: the tree below holds a \<^verbatim>\<open>dirs\<close> element with
  the children "en-ru" and "ru-en" one level further down, and the fetch returns the
  text of the one top-level element, which has none.
\<close>

theorem xml_langs_counterexample:
  "fst (get_langs xml_handler (fresh_world (answering (xml_reply nested_tree))) ''https://host/'' False Map.empty)
     = Inr (Val (PList [PNone]))"
proof -
  have x: "self_json xml_handler = []" by (simp add: xml_handler_def)
  have f: "False \<or> \<not> truthy_obj (self_cache xml_handler)" by (simp add: xml_handler_def)
  have a: "\<forall>rq. transport (fresh_world (answering (xml_reply nested_tree)))
                  (sent (fresh_world (answering (xml_reply nested_tree)))) rq = Inr (xml_reply nested_tree)"
    by (simp add: answering_any)
  have k: "resp_ok (xml_reply nested_tree)" by (simp add: xml_reply_def)
  have b: "resp_xml (xml_reply nested_tree) = Inr nested_tree" by (simp add: xml_reply_def)
  show ?thesis
    unfolding get_langs_xml_result [OF x no_callback no_endpoint f a k b]
    by (simp add: langs_of_xml_def find_elem_def nested_tree_def text_of_def)
qed

text \<open>
  C5, amended. A handler in XML mode fetches the language list (no callback
  parameter, no parameter named \<^verbatim>\<open>endpoint\<close>, the cache empty or the update flag set)
  and the service answers with a success status and a body that parses to \<open>tree\<close>.
  When the first top-level element of \<open>tree\<close> tagged \<^verbatim>\<open>dirs\<close> has at least one child,
  the fetch returns exactly the texts of that element's children, in order (so
  ["en-ru", "ru-en"] for children with these texts). When no top-level element is
  tagged \<^verbatim>\<open>dirs\<close>, it returns exactly the texts of the top-level elements, in order (so
  ["en", "ru", "de"] for elements with these texts). An element without text
  contributes \<^verbatim>\<open>None\<close>.
\<close>

theorem xml_langs_extracted:
  assumes "self_json self = []"
    and "params ''callback'' = None" and "params ''endpoint'' = None"
    and "update \<or> \<not> truthy_obj (self_cache self)"
    and "\<forall>rq. transport w (sent w) rq = Inr r"
    and "resp_ok r" and "resp_xml r = Inr tree"
  shows "(\<forall>pre d post.
            elem_children tree = pre @ d # post \<and> (\<forall>c\<in>set pre. elem_tag c \<noteq> ''dirs'') \<and>
            elem_tag d = ''dirs'' \<and> elem_children d \<noteq> [] \<longrightarrow>
            fst (get_langs self w url update params) =
              Inr (Val (PList (map (\<lambda>c. case elem_text c of None \<Rightarrow> PNone | Some s \<Rightarrow> PStr s)
                                 (elem_children d))))) \<and>
         ((\<forall>c\<in>set (elem_children tree). elem_tag c \<noteq> ''dirs'') \<longrightarrow>
            fst (get_langs self w url update params) =
              Inr (Val (PList (map (\<lambda>c. case elem_text c of None \<Rightarrow> PNone | Some s \<Rightarrow> PStr s)
                                 (elem_children tree)))))"
proof -
  have eq: "fst (get_langs self w url update params) = langs_of_xml (Tree tree)"
    by (rule get_langs_xml_result [OF assms])
  have t: "map text_of cs = map (\<lambda>c. case elem_text c of None \<Rightarrow> PNone | Some s \<Rightarrow> PStr s) cs" for cs
    by (simp add: text_of_def)
  have nested: "langs_of_xml (Tree tree) = Inr (Val (PList (map text_of (elem_children d))))"
    if "elem_children tree = pre @ d # post" and "\<forall>c\<in>set pre. elem_tag c \<noteq> ''dirs''"
      and "elem_tag d = ''dirs''" and "elem_children d \<noteq> []" for pre d post
  proof -
    have "find_elem tree ''dirs'' = Some d"
      unfolding find_elem_def that(1) by (rule find_child_first [OF that(2,3)])
    then show ?thesis
      using that(4) by (simp add: langs_of_xml_def)
  qed
  have flat: "langs_of_xml (Tree tree) = Inr (Val (PList (map text_of (elem_children tree))))"
    if "\<forall>c\<in>set (elem_children tree). elem_tag c \<noteq> ''dirs''"
  proof -
    have "find_elem tree ''dirs'' = None"
      unfolding find_elem_def by (rule find_child_absent [OF that])
    then show ?thesis by (simp add: langs_of_xml_def)
  qed
  show ?thesis
    unfolding eq using nested flat by (simp add: t)
qed

theorem xml_langs_extracted_witness:
  "elem_children dirs_tree =
     [] @ Element ''dirs'' None [Element ''string'' (Some ''en-ru'') [], Element ''string'' (Some ''ru-en'') []] # [] \<and>
   fst (get_langs xml_handler (fresh_world (answering (xml_reply dirs_tree))) ''https://host/'' False Map.empty)
     = Inr (Val (PList [PStr ''en-ru'', PStr ''ru-en''])) \<and>
   map elem_tag (elem_children flat_tree) = [''string'', ''string'', ''string''] \<and>
   fst (get_langs xml_handler (fresh_world (answering (xml_reply flat_tree))) ''https://host/'' False Map.empty)
     = Inr (Val (PList [PStr ''en'', PStr ''ru'', PStr ''de'']))"
proof -
  have x: "self_json xml_handler = []" by (simp add: xml_handler_def)
  have f: "False \<or> \<not> truthy_obj (self_cache xml_handler)" by (simp add: xml_handler_def)
  have a: "\<forall>rq. transport (fresh_world (answering (xml_reply t))) (sent (fresh_world (answering (xml_reply t)))) rq
             = Inr (xml_reply t)" for t
    by (simp add: answering_any)
  have k: "resp_ok (xml_reply t)" for t by (simp add: xml_reply_def)
  have b: "resp_xml (xml_reply t) = Inr t" for t by (simp add: xml_reply_def)
  have d1: "elem_children dirs_tree =
     [] @ Element ''dirs'' None [Element ''string'' (Some ''en-ru'') [], Element ''string'' (Some ''ru-en'') []] # []"
    by (simp add: dirs_tree_def)
  have d2: "\<forall>c\<in>set (elem_children flat_tree). elem_tag c \<noteq> ''dirs''"
    by (simp add: flat_tree_def)
  have c2: "elem_children flat_tree =
     [Element ''string'' (Some ''en'') [], Element ''string'' (Some ''ru'') [], Element ''string'' (Some ''de'') []]"
    by (simp add: flat_tree_def)
  note nested = xml_langs_extracted [where tree = dirs_tree and url = "''https://host/''",
      OF x no_callback no_endpoint f a k b, THEN conjunct1, THEN spec [where x = "[]"],
      THEN spec [where x = "Element ''dirs'' None
        [Element ''string'' (Some ''en-ru'') [], Element ''string'' (Some ''ru-en'') []]"],
      THEN spec [where x = "[]"]]
  note flat = xml_langs_extracted [where tree = flat_tree and url = "''https://host/''",
      OF x no_callback no_endpoint f a k b, THEN conjunct2, THEN mp, OF d2]
  show ?thesis
    using nested flat d1 c2 by simp
qed

text \<open>
  C6. For every endpoint name of the endpoint table and every parameter set, the
  combined request takes exactly one of three paths: the raw request if a
  \<^verbatim>\<open>callback\<close> parameter is present, whatever the configured format; otherwise the
  XML-decoding request if the handler is in XML mode; otherwise the JSON-decoding
  request. When the service answers with a success status, the call issues that one
  request and returns the raw response, the XML-decoded tree or the JSON-decoded
  body respectively.
\<close>

theorem combined_request_dispatch:
  assumes known: "endpoints endpoint = Some path"
    and rq: "rq = \<lparr> req_post = truthy (case params ''post'' of None \<Rightarrow> post | Some x \<Rightarrow> x),
                     req_url = (case params ''url'' of None \<Rightarrow> PStr (self_url self @ path) | Some x \<Rightarrow> x),
                     req_params = params(''url'' := None, ''post'' := None) \<rparr>"
  shows "make_combined_request self w endpoint post params =
           (if params ''callback'' \<noteq> None then
              returning Resp (make_request w (req_url rq)
                (case params ''post'' of None \<Rightarrow> post | Some x \<Rightarrow> x) (req_params rq))
            else if self_json self = [] then
              returning Tree (make_request_xml w (req_url rq)
                (case params ''post'' of None \<Rightarrow> post | Some x \<Rightarrow> x) (req_params rq))
            else
              returning Val (make_request_json w (req_url rq)
                (case params ''post'' of None \<Rightarrow> post | Some x \<Rightarrow> x) (req_params rq))) \<and>
         (\<forall>r. transport w (sent w) rq = Inr r \<and> resp_ok r \<longrightarrow>
            make_combined_request self w endpoint post params =
              (if params ''callback'' \<noteq> None then Inr (Resp r)
               else if self_json self = [] then map_sum id Tree (resp_xml r)
               else map_sum id Val (resp_json r),
               w\<lparr> sent := sent w @ [rq] \<rparr>))"
proof -
  have paths: "make_combined_request self w endpoint post params =
           (if params ''callback'' \<noteq> None then
              returning Resp (make_request w (req_url rq)
                (case params ''post'' of None \<Rightarrow> post | Some x \<Rightarrow> x) (req_params rq))
            else if self_json self = [] then
              returning Tree (make_request_xml w (req_url rq)
                (case params ''post'' of None \<Rightarrow> post | Some x \<Rightarrow> x) (req_params rq))
            else
              returning Val (make_request_json w (req_url rq)
                (case params ''post'' of None \<Rightarrow> post | Some x \<Rightarrow> x) (req_params rq)))"
    unfolding combined_dispatch [OF known] by (simp add: rq)
  have "make_combined_request self w endpoint post params =
              (if params ''callback'' \<noteq> None then Inr (Resp r)
               else if self_json self = [] then map_sum id Tree (resp_xml r)
               else map_sum id Val (resp_json r),
               w\<lparr> sent := sent w @ [rq] \<rparr>)"
    if answer: "transport w (sent w) rq = Inr r" and success: "resp_ok r" for r
  proof -
    have raw: "make_request w (req_url rq) (case params ''post'' of None \<Rightarrow> post | Some x \<Rightarrow> x) (req_params rq)
        = (Inr r, w\<lparr> sent := sent w @ [rq] \<rparr>)"
      using make_request_answer [of w "case params ''post'' of None \<Rightarrow> post | Some x \<Rightarrow> x"
          "req_url rq" "req_params rq" r] answer success
      by (simp add: rq)
    show ?thesis
      unfolding paths
      using raw
      by (cases "resp_xml r"; cases "resp_json r")
         (simp_all add: returning_def make_request_xml_def make_request_json_def)
  qed
  with paths show ?thesis by blast
qed

theorem combined_request_dispatch_witness:
  "endpoints ''langs'' = Some ''getLangs'' \<and>
   fst (make_combined_request xml_handler (fresh_world (answering (xml_reply dirs_tree))) ''langs'' (PBool False)
      [''callback'' \<mapsto> PStr ''cb'']) = Inr (Resp (xml_reply dirs_tree)) \<and>
   fst (make_combined_request json_handler (fresh_world (answering (xml_reply dirs_tree))) ''langs'' (PBool False)
      [''callback'' \<mapsto> PStr ''cb'']) = Inr (Resp (xml_reply dirs_tree)) \<and>
   fst (make_combined_request xml_handler (fresh_world (answering (xml_reply dirs_tree))) ''langs'' (PBool False)
      Map.empty) = Inr (Tree dirs_tree) \<and>
   fst (make_combined_request json_handler (fresh_world (answering (json_reply (PList [PStr ''en'']))))
      ''langs'' (PBool False) Map.empty) = Inr (Val (PList [PStr ''en'']))"
proof -
  have k: "resp_ok (xml_reply dirs_tree)" "resp_ok (json_reply (PList [PStr ''en'']))"
    by (simp_all add: xml_reply_def json_reply_def)
  have b: "resp_xml (xml_reply dirs_tree) = Inr dirs_tree"
    "resp_json (json_reply (PList [PStr ''en''])) = Inr (PList [PStr ''en''])"
    by (simp_all add: xml_reply_def json_reply_def)
  have m: "self_json xml_handler = []" "self_json json_handler \<noteq> []"
    by (simp_all add: xml_handler_def json_handler_def)
  note c1 = combined_request_dispatch [where self = xml_handler and params = "[''callback'' \<mapsto> PStr ''cb'']"
      and post = "PBool False"
      and w = "fresh_world (answering (xml_reply dirs_tree))",
      OF langs_known refl, THEN conjunct2, rule_format, OF conjI, OF answering_any k(1)]
  note c2 = combined_request_dispatch [where self = json_handler and params = "[''callback'' \<mapsto> PStr ''cb'']"
      and post = "PBool False"
      and w = "fresh_world (answering (xml_reply dirs_tree))",
      OF langs_known refl, THEN conjunct2, rule_format, OF conjI, OF answering_any k(1)]
  note c3 = combined_request_dispatch [where self = xml_handler and params = "Map.empty"
      and post = "PBool False"
      and w = "fresh_world (answering (xml_reply dirs_tree))",
      OF langs_known refl, THEN conjunct2, rule_format, OF conjI, OF answering_any k(1)]
  note c4 = combined_request_dispatch [where self = json_handler and params = "Map.empty"
      and post = "PBool False"
      and w = "fresh_world (answering (json_reply (PList [PStr ''en''])))",
      OF langs_known refl, THEN conjunct2, rule_format, OF conjI, OF answering_any k(2)]
  show ?thesis
    using c1 c2 c3 c4 langs_known b m by simp
qed

text \<open>
  C7. For each of the three low-level requests (raw, JSON-decoded, XML-decoded): when
  the response's status indicates failure, the call raises the typed exception that
  carries exactly that response's status code, whatever decoding the body would give
  (the decoders are not consulted); on a success status the raw variant returns the
  response as it is.
\<close>

theorem failed_status_raises:
  assumes "transport w (sent w) \<lparr> req_post = truthy post, req_url = url, req_params = params \<rparr> = Inr r"
  shows "(\<not> resp_ok r \<longrightarrow>
            (\<exists>m. fst (make_request w url post params)
                    = Inl (YaTranslateException [PStr m, PInt (resp_status_code r)])
               \<and> fst (make_request_json w url post params)
                    = Inl (YaTranslateException [PStr m, PInt (resp_status_code r)])
               \<and> fst (make_request_xml w url post params)
                    = Inl (YaTranslateException [PStr m, PInt (resp_status_code r)]))) \<and>
         (resp_ok r \<longrightarrow> fst (make_request w url post params) = Inr r)"
  using assms
  by (simp add: make_request_def make_request_json_def make_request_xml_def Let_def
        YaTranslateException_init_def)

theorem failed_status_raises_witness:
  "\<not> resp_ok (error_reply 403) \<and>
   (\<exists>m. fst (make_request (fresh_world (answering (error_reply 403))) (PStr ''getLangs'') (PBool False)
              [''key'' \<mapsto> PStr ''123'']) = Inl (YaTranslateException [PStr m, PInt 403])
      \<and> fst (make_request_json (fresh_world (answering (error_reply 403))) (PStr ''getLangs'') (PBool False)
              [''key'' \<mapsto> PStr ''123'']) = Inl (YaTranslateException [PStr m, PInt 403])
      \<and> fst (make_request_xml (fresh_world (answering (error_reply 403))) (PStr ''getLangs'') (PBool False)
              [''key'' \<mapsto> PStr ''123'']) = Inl (YaTranslateException [PStr m, PInt 403])) \<and>
   resp_ok (json_reply (PList [PStr ''en''])) \<and>
   fst (make_request (fresh_world (answering (json_reply (PList [PStr ''en''])))) (PStr ''getLangs'') (PBool False)
              [''key'' \<mapsto> PStr ''123'']) = Inr (json_reply (PList [PStr ''en'']))"
proof -
  have b: "\<not> resp_ok (error_reply 403)" "resp_status_code (error_reply 403) = 403"
    by (simp_all add: error_reply_def)
  have c: "resp_ok (json_reply (PList [PStr ''en'']))" by (simp add: json_reply_def)
  note failure = failed_status_raises [where r = "error_reply 403" and post = "PBool False"
      and url = "PStr ''getLangs''" and params = "[''key'' \<mapsto> PStr ''123'']", OF answering_any]
  note success = failed_status_raises [where r = "json_reply (PList [PStr ''en''])" and post = "PBool False"
      and url = "PStr ''getLangs''" and params = "[''key'' \<mapsto> PStr ''123'']", OF answering_any]
  show ?thesis
    using failure success b c by simp
qed

text \<open>
  C8, as the claim states it, fails: a handler constructed without the format flag
  has the suffix ".json", so it is in JSON mode, not in XML mode.
\<close>

theorem default_format_counterexample:
  "map_sum id self_json (YaAPIHandler_init ''123'' None) = Inr ''.json''"
  by (simp add: YaAPIHandler_init_def)

text \<open>
  C8, amended. When the handler is constructed without an explicit format flag, it
  is in JSON mode: its format suffix is ".json". The suffix is the empty string (XML
  mode) only when the flag \<^verbatim>\<open>xml\<close> is given as true.
\<close>

theorem default_format_is_json:
  "api_key \<noteq> [] \<Longrightarrow>
   \<exists>h. YaAPIHandler_init api_key xml_arg = Inr h \<and>
       self_json h = (if xml_arg = Some True then '''' else ''.json'')"
  by (cases xml_arg) (auto simp add: YaAPIHandler_init_def)

theorem default_format_is_json_witness:
  "''123'' \<noteq> [] \<and>
   (\<exists>h. YaAPIHandler_init ''123'' None = Inr h \<and> self_json h = ''.json'') \<and>
   (\<exists>h. YaAPIHandler_init ''123'' (Some False) = Inr h \<and> self_json h = ''.json'') \<and>
   (\<exists>h. YaAPIHandler_init ''123'' (Some True) = Inr h \<and> self_json h = '''')"
  using default_format_is_json [of "''123''" None] default_format_is_json [of "''123''" "Some False"]
        default_format_is_json [of "''123''" "Some True"]
  by simp

text \<open>
  C9. The key-validation probe runs the language-list fetch with the update flag
  set. Whenever that fetch raises an exception, the probe hands it to the logger's
  warning and returns false; whenever the fetch succeeds, it returns true. The same
  holds when the call of the fetch itself raises, which it does when the probe's
  parameters name \<^verbatim>\<open>update\<close> a second time: the probe logs that exception and returns
  false, with no request issued. Its result is a boolean in every case: no exception
  escapes.
\<close>

theorem ok_probe_reports:
  "(params ''update'' = None \<longrightarrow>
      (\<forall>err h' w'. get_langs self w url True params = (Inl err, h', w') \<longrightarrow>
          ok self w url params = (False, h', w'\<lparr> logged := logged w' @ [err] \<rparr>)) \<and>
      (\<forall>v h' w'. get_langs self w url True params = (Inr v, h', w') \<longrightarrow>
          ok self w url params = (True, h', w'))) \<and>
   (params ''update'' \<noteq> None \<longrightarrow>
      ok self w url params =
        (False, self,
         w\<lparr> logged := logged w @ [TypeError ''got multiple values for keyword argument update''] \<rparr>))"
  by (simp add: ok_def)

theorem ok_probe_reports_witness:
  "get_langs json_handler (fresh_world unreachable) ''https://host/'' True Map.empty =
     (Inl (LibraryError ''ConnectionError''), json_handler, (fresh_world unreachable)\<lparr> sent := [langs_get] \<rparr>) \<and>
   ok json_handler (fresh_world unreachable) ''https://host/'' Map.empty =
     (False, json_handler,
      (fresh_world unreachable)\<lparr> sent := [langs_get], logged := [LibraryError ''ConnectionError''] \<rparr>) \<and>
   get_langs json_handler (fresh_world (answering (json_reply (PList [PStr ''en''])))) ''https://host/'' True
      Map.empty =
     (Inr (Val (PList [PStr ''en''])), json_handler\<lparr> self_cache := Val (PList [PStr ''en'']) \<rparr>,
      fresh_world (answering (json_reply (PList [PStr ''en''])))\<lparr> sent := [langs_get] \<rparr>) \<and>
   ok json_handler (fresh_world (answering (json_reply (PList [PStr ''en''])))) ''https://host/'' Map.empty =
     (True, json_handler\<lparr> self_cache := Val (PList [PStr ''en'']) \<rparr>,
      fresh_world (answering (json_reply (PList [PStr ''en''])))\<lparr> sent := [langs_get] \<rparr>) \<and>
   ok json_handler (fresh_world (answering (json_reply (PList [PStr ''en''])))) ''https://host/''
      [''update'' \<mapsto> PBool False] =
     (False, json_handler,
      fresh_world (answering (json_reply (PList [PStr ''en''])))
        \<lparr> logged := [TypeError ''got multiple values for keyword argument update''] \<rparr>)"
proof -
  note up = first_fetch_en [of True]
  show ?thesis
    using ok_probe_reports [of Map.empty json_handler "fresh_world unreachable" "''https://host/''"]
          ok_probe_reports [of Map.empty json_handler "fresh_world (answering (json_reply (PList [PStr ''en''])))"
             "''https://host/''"]
          ok_probe_reports [of "[''update'' \<mapsto> PBool False]" json_handler
             "fresh_world (answering (json_reply (PList [PStr ''en''])))" "''https://host/''"]
          fetch_unreachable up
    by (simp add: fresh_world_def)
qed

text \<open>
  C10, as the claim states it, fails for a call that passes a parameter named
  \<^verbatim>\<open>endpoint\<close>: after a fetch that stored the empty list, such a call without the
  update flag raises \<^verbatim>\<open>TypeError\<close> and issues no request.
\<close>

theorem falsy_cache_counterexample:
  "get_langs json_handler (fresh_world (answering (json_reply (PList [])))) ''https://host/'' False Map.empty =
     (Inr (Val (PList [])), json_handler\<lparr> self_cache := Val (PList []) \<rparr>,
      fresh_world (answering (json_reply (PList [])))\<lparr> sent := [langs_get] \<rparr>) \<and>
   get_langs (json_handler\<lparr> self_cache := Val (PList []) \<rparr>)
      (fresh_world (answering (json_reply (PList [])))\<lparr> sent := [langs_get] \<rparr>)
      ''https://host/'' False [''endpoint'' \<mapsto> PStr ''langs''] =
     (Inl (TypeError ''got multiple values for keyword argument endpoint''),
      json_handler\<lparr> self_cache := Val (PList []) \<rparr>,
      fresh_world (answering (json_reply (PList [])))\<lparr> sent := [langs_get] \<rparr>)"
  using first_fetch_empty
  by (simp add: get_langs_def Let_def form_params_def json_handler_def map_add_def)

text \<open>
  C10, amended. The cache is tested by the truth value of what it holds. If a
  successful language-list fetch (without a callback parameter) stored the empty
  list or the empty mapping, then every later call without the update flag and
  without a parameter named \<^verbatim>\<open>endpoint\<close>, made while the handler still holds that
  value, issues exactly one fresh request, whatever the world has become meanwhile.
  When the service answers that request with a success status, a call without a
  callback parameter returns and caches what the service answered (the decoded JSON
  body in JSON mode, the list extracted from the parsed tree in XML mode) instead of
  the cached empty value.
\<close>

theorem falsy_cache_refetched:
  assumes "get_langs h0 w0 u0 upd p0 = (Inr v, h, w1)"
    and "p0 ''callback'' = None"
    and "v = Val (PList []) \<or> v = Val (PDict [])"
    and "params ''endpoint'' = None"
  shows "self_cache h = v \<and>
         (\<exists>rq. snd (snd (get_langs h w url False params)) = w\<lparr> sent := sent w @ [rq] \<rparr> \<and>
            (\<forall>r. transport w (sent w) rq = Inr r \<and> resp_ok r \<and> params ''callback'' = None \<longrightarrow>
               (self_json h \<noteq> [] \<longrightarrow>
                  (\<forall>x. resp_json r = Inr x \<longrightarrow>
                     get_langs h w url False params =
                       (Inr (Val x), h\<lparr> self_cache := Val x \<rparr>, w\<lparr> sent := sent w @ [rq] \<rparr>))) \<and>
               (self_json h = [] \<longrightarrow>
                  (\<forall>tree langs. resp_xml r = Inr tree \<and> langs_of_xml (Tree tree) = Inr langs \<longrightarrow>
                     get_langs h w url False params =
                       (Inr langs, h\<lparr> self_cache := langs \<rparr>, w\<lparr> sent := sent w @ [rq] \<rparr>)))))"
proof -
  have k: "self_cache h = v"
    using get_langs_keeps [OF assms(2,1)] by simp
  then have falsy: "\<not> truthy_obj (self_cache h)"
    using assms(3) by auto
  from k falsy_cache_fetch [where h = h and params = params and w = w and url = url, OF falsy assms(4)]
  show ?thesis by blast
qed

theorem falsy_cache_refetched_witness:
  "get_langs json_handler (fresh_world refilled) ''https://host/'' False Map.empty =
     (Inr (Val (PList [])), json_handler\<lparr> self_cache := Val (PList []) \<rparr>,
      (fresh_world refilled)\<lparr> sent := [langs_get] \<rparr>) \<and>
   self_cache (json_handler\<lparr> self_cache := Val (PList []) \<rparr>) = Val (PList []) \<and>
   (\<exists>rq. snd (snd (get_langs (json_handler\<lparr> self_cache := Val (PList []) \<rparr>)
             ((fresh_world refilled)\<lparr> sent := [langs_get] \<rparr>) ''https://host/'' False Map.empty)) =
          (fresh_world refilled)\<lparr> sent := [langs_get, rq] \<rparr>) \<and>
   get_langs (json_handler\<lparr> self_cache := Val (PList []) \<rparr>) ((fresh_world refilled)\<lparr> sent := [langs_get] \<rparr>)
      ''https://host/'' False Map.empty =
     (Inr (Val (PList [PStr ''en''])), json_handler\<lparr> self_cache := Val (PList [PStr ''en'']) \<rparr>,
      (fresh_world refilled)\<lparr> sent := [langs_get, langs_get] \<rparr>)"
proof -
  have v: "Val (PList []) = Val (PList []) \<or> Val (PList []) = Val (PDict [])" by simp
  note again = falsy_cache_refetched [OF refilled_first no_callback v no_endpoint,
      of "(fresh_world refilled)\<lparr> sent := [langs_get] \<rparr>" "''https://host/''"]
  show ?thesis
    using again refilled_first refilled_second
    by (simp add: fresh_world_def)
qed

end
